theory Spec2Isabelle
  imports
    Main
    "HOL-Library.Char_ord"
    "HOL-Library.List_Lexorder"
    "HOL-Library.Product_Lexorder"
    "HOL-Library.Multiset"
begin

section \<open>The SSO report of \<^verbatim>\<open>sso_report.py\<close>\<close>

text \<open>
  The program reads an identity centre through paginated listing calls, joins the
  answers in two dictionaries and writes one CSV line per resolved user. The model
  below follows \<^verbatim>\<open>sso_report.py\<close> function by function.

  \<^item> Python strings are \<^typ>\<open>string\<close>. The order on strings is the lexicographic
    order of \<^theory_text>\<open>List_Lexorder\<close> over the byte order of \<^theory_text>\<open>Char_ord\<close>; on
    UTF-8 text it agrees with Python's comparison by code point. Tuples are
    compared lexicographically (\<^theory_text>\<open>Product_Lexorder\<close>), as Python compares them.
  \<^item> An exception is a value of \<open>py_error\<close>; a function that can raise returns
    \<open>py_error + 'a\<close>, and one that also changes the state returns the state it
    leaves behind next to the result, also when it raises.
  \<^item> The cloud API is a record of functions, \<open>aws\<close>: every listing call answers
    with its pages, and the calls themselves are taken to succeed (an API error
    aborts the program at once and is outside of what is modelled).
  \<^item> The progress line printed for each account is not part of the report and is
    left out.
\<close>

subsection \<open>Data\<close>

datatype py_error = IndexError | KeyError | ValueError

text \<open>The entries of the API answers, with the keys the program reads. A key read
  with \<^verbatim>\<open>.get(key, "")\<close> is optional; a key read by subscript is taken to be
  present in every answer, as the API documents it.\<close>

record sso_instance =
  IdentityStoreId :: string
  InstanceArn :: string

record sso_user =
  UserId :: string
  UserName :: string
  DisplayName :: string

text \<open>\<open>GroupDisplayName\<close> is the key \<^verbatim>\<open>DisplayName\<close> and \<open>GroupDescription\<close> the key
  \<^verbatim>\<open>Description\<close> of a group.\<close>

record sso_group =
  GroupId :: string
  GroupDisplayName :: string
  GroupDescription :: "string option"

text \<open>\<open>AccountId\<close> is the key \<^verbatim>\<open>Id\<close> and \<open>AccountName\<close> the key \<^verbatim>\<open>Name\<close> of an
  account.\<close>

record org_account =
  AccountId :: string
  AccountName :: string

record permission_set_info =
  Name :: string
  Description :: "string option"

record account_assignment =
  PrincipalType :: string
  PrincipalId :: string

text \<open>
  The API. The arguments are those the program passes:
  \<open>list_users\<close> and \<open>list_groups\<close> take the identity store id,
  \<open>list_group_memberships\<close> the identity store id and the group id (its answer
  holds the \<^verbatim>\<open>MemberId.UserId\<close> of each membership),
  \<open>list_permission_sets_provisioned_to_account\<close> the account id and the instance arn,
  \<open>api_describe_permission_set\<close> the instance arn and the permission set arn,
  \<open>list_account_assignments\<close> the account id, the instance arn and the permission
  set arn. A listing is a list of pages.
\<close>

record aws =
  list_instances :: "sso_instance list"
  list_users :: "string \<Rightarrow> sso_user list list"
  list_groups :: "string \<Rightarrow> sso_group list list"
  list_group_memberships :: "string \<Rightarrow> string \<Rightarrow> string list list"
  list_accounts :: "org_account list list"
  list_permission_sets_provisioned_to_account :: "string \<Rightarrow> string \<Rightarrow> string list list"
  api_describe_permission_set :: "string \<Rightarrow> string \<Rightarrow> permission_set_info"
  list_account_assignments :: "string \<Rightarrow> string \<Rightarrow> string \<Rightarrow> account_assignment list list"

text \<open>Names for the strings that the program passes around.\<close>

type_synonym account_id = string
type_synonym account_name = string
type_synonym permission_set_arn = string
type_synonym perm_name = string
type_synonym perm_desc = string
type_synonym principal_type = string
type_synonym principal_id = string
type_synonym group_name = string
type_synonym group_desc = string
type_synonym username = string
type_synonym user_displayname = string

type_synonym user_map = "string \<rightharpoonup> username \<times> user_displayname"

type_synonym group_map =
  "string \<rightharpoonup> group_name \<times> group_desc \<times> (username \<times> user_displayname) list"

text \<open>
  What the walk over the accounts changes: the cache of \<^verbatim>\<open>describe_permission_set\<close>
  (most recently used entry first), the permission set arns for which the describe
  call of the API was issued, in order, and the lines written to the report.
\<close>

record report_state =
  ps_cache :: "(string \<times> permission_set_info) list"
  describe_calls :: "string list"
  csv_rows :: "string list list"

text \<open>What a run leaves behind: how it ended, the report file (\<open>None\<close> when the run
  never opened it) and the describe calls it issued.\<close>

record run_result =
  outcome :: "py_error + unit"
  sso_report_csv :: "string list list option"
  describe_api_calls :: "string list"

subsection \<open>The identity centre and the listings\<close>

text \<open>\<^verbatim>\<open>instances[0]\<close> raises \<^verbatim>\<open>IndexError\<close> on an empty list. The function is
  memoised; its answer does not change during a run, so every call is modelled by
  the same computation.\<close>

definition get_identity_center :: "aws \<Rightarrow> py_error + (string \<times> string)" where
  "get_identity_center w =
     (case list_instances w of
        [] \<Rightarrow> Inl IndexError
      | inst # _ \<Rightarrow> Inr (InstanceArn inst, IdentityStoreId inst))"

definition generate_group_memberships :: "aws \<Rightarrow> string \<Rightarrow> py_error + string list" where
  "generate_group_memberships w group_id =
     (case get_identity_center w of
        Inl e \<Rightarrow> Inl e
      | Inr (iam_id_center_arn, identity_store_id) \<Rightarrow>
          Inr (concat (list_group_memberships w identity_store_id group_id)))"

definition generate_users :: "aws \<Rightarrow> py_error + sso_user list" where
  "generate_users w =
     (case get_identity_center w of
        Inl e \<Rightarrow> Inl e
      | Inr (iam_id_center_arn, identity_store_id) \<Rightarrow>
          Inr (concat (list_users w identity_store_id)))"

definition generate_groups :: "aws \<Rightarrow> py_error + sso_group list" where
  "generate_groups w =
     (case get_identity_center w of
        Inl e \<Rightarrow> Inl e
      | Inr (iam_id_center_arn, identity_store_id) \<Rightarrow>
          Inr (concat (list_groups w identity_store_id)))"

definition generate_account_assignments ::
  "aws \<Rightarrow> string \<Rightarrow> string \<Rightarrow> py_error + account_assignment list" where
  "generate_account_assignments w account_id permission_set =
     (case get_identity_center w of
        Inl e \<Rightarrow> Inl e
      | Inr (iam_id_center_arn, identity_store_id) \<Rightarrow>
          Inr (concat (list_account_assignments w account_id iam_id_center_arn permission_set)))"

definition generate_permission_sets_for_account :: "aws \<Rightarrow> string \<Rightarrow> py_error + string list" where
  "generate_permission_sets_for_account w account_id =
     (case get_identity_center w of
        Inl e \<Rightarrow> Inl e
      | Inr (iam_id_center_arn, identity_store_id) \<Rightarrow>
          Inr (concat (list_permission_sets_provisioned_to_account w account_id iam_id_center_arn)))"

definition generate_accounts :: "aws \<Rightarrow> (string \<times> string) list" where
  "generate_accounts w = map (\<lambda>account. (AccountId account, AccountName account)) (concat (list_accounts w))"

subsection \<open>The cache of permission set descriptions\<close>

text \<open>
  \<^verbatim>\<open>@functools.lru_cache\<close> without arguments keeps the 128 most recently used
  results: a hit moves the entry to the front, a miss calls the function, puts the
  result in front and drops the least recently used entry when the cache is full.
\<close>

definition lru_maxsize :: nat where
  "lru_maxsize = 128"

definition describe_permission_set ::
  "aws \<Rightarrow> string \<Rightarrow> report_state \<Rightarrow> (py_error + permission_set_info) \<times> report_state" where
  "describe_permission_set w permission_set st =
     (case map_of (ps_cache st) permission_set of
        Some info \<Rightarrow>
          (Inr info,
           st\<lparr>ps_cache := (permission_set, info) # filter (\<lambda>kv. fst kv \<noteq> permission_set) (ps_cache st)\<rparr>)
      | None \<Rightarrow>
          (case get_identity_center w of
             Inl e \<Rightarrow> (Inl e, st)
           | Inr (iam_id_center_arn, identity_store_id) \<Rightarrow>
               (Inr (api_describe_permission_set w iam_id_center_arn permission_set),
                st\<lparr>ps_cache :=
                      take lru_maxsize
                        ((permission_set, api_describe_permission_set w iam_id_center_arn permission_set)
                           # ps_cache st),
                    describe_calls := describe_calls st @ [permission_set]\<rparr>)))"

subsection \<open>Loading the directory\<close>

text \<open>The first loop of \<^verbatim>\<open>main\<close> (lines 13 to 18): a later user with the same id
  replaces an earlier one.\<close>

fun build_user_map :: "user_map \<Rightarrow> sso_user list \<Rightarrow> user_map" where
  "build_user_map user_map [] = user_map"
| "build_user_map user_map (user # users) =
     build_user_map (user_map(UserId user \<mapsto> (UserName user, DisplayName user))) users"

text \<open>The list comprehension \<^verbatim>\<open>[user_map[user_id] for user_id in ...]\<close>: the first
  user id that is not a key raises \<^verbatim>\<open>KeyError\<close>.\<close>

fun resolve_members :: "user_map \<Rightarrow> string list \<Rightarrow> py_error + (string \<times> string) list" where
  "resolve_members user_map [] = Inr []"
| "resolve_members user_map (user_id # user_ids) =
     (case user_map user_id of
        None \<Rightarrow> Inl KeyError
      | Some member \<Rightarrow>
          (case resolve_members user_map user_ids of
             Inl e \<Rightarrow> Inl e
           | Inr members \<Rightarrow> Inr (member # members)))"

text \<open>The second loop of \<^verbatim>\<open>main\<close> (lines 19 to 28). \<^verbatim>\<open>members.sort()\<close> is
  \<^const>\<open>sort\<close>: on a linear order the sorted rearrangement of a list is unique.\<close>

fun build_group_map :: "aws \<Rightarrow> user_map \<Rightarrow> group_map \<Rightarrow> sso_group list \<Rightarrow> py_error + group_map" where
  "build_group_map w user_map group_map [] = Inr group_map"
| "build_group_map w user_map group_map (grp # groups) =
     (case generate_group_memberships w (GroupId grp) of
        Inl e \<Rightarrow> Inl e
      | Inr user_ids \<Rightarrow>
          (case resolve_members user_map user_ids of
             Inl e \<Rightarrow> Inl e
           | Inr members \<Rightarrow>
               build_group_map w user_map
                 (group_map(GroupId grp \<mapsto>
                    (GroupDisplayName grp,
                     (case GroupDescription grp of None \<Rightarrow> [] | Some d \<Rightarrow> d),
                     sort members)))
                 groups))"

definition load_directory :: "aws \<Rightarrow> py_error + (user_map \<times> group_map)" where
  "load_directory w =
     (case generate_users w of
        Inl e \<Rightarrow> Inl e
      | Inr users \<Rightarrow>
          (case generate_groups w of
             Inl e \<Rightarrow> Inl e
           | Inr groups \<Rightarrow>
               (case build_group_map w (build_user_map Map.empty users) Map.empty groups of
                  Inl e \<Rightarrow> Inl e
                | Inr group_map \<Rightarrow> Inr (build_user_map Map.empty users, group_map))))"

subsection \<open>Writing the report\<close>

definition field_names :: "string list" where
  "field_names =
     [''ACCOUNT_ID'', ''ACCOUNT_NAME'', ''PERM_ARN'', ''PERMISSION'', ''PERM_DESC'',
      ''PRINCIPAL_TYPE'', ''GROUP'', ''GROUP_DESC'', ''USER_ID'', ''USER_NAME'']"

text \<open>
  \<^verbatim>\<open>csv.DictWriter.writerow\<close> with its defaults: a key of the row that is not a
  field name raises \<^verbatim>\<open>ValueError\<close>, a field name that is not a key of the row
  gives an empty cell. A row dictionary is the list of its items; a line of the
  report is the list of its cells.
\<close>

definition writerow :: "string list \<Rightarrow> (string \<times> string) list \<Rightarrow> py_error + string list" where
  "writerow fieldnames rowdict =
     (if set (map fst rowdict) \<subseteq> set fieldnames
      then Inr (map (\<lambda>key. case map_of rowdict key of None \<Rightarrow> [] | Some v \<Rightarrow> v) fieldnames)
      else Inl ValueError)"

text \<open>Reading a cell of a line by the name of its column.\<close>

definition csv_column :: "string \<Rightarrow> string list \<Rightarrow> string" where
  "csv_column name line = (case map_of (zip field_names line) name of None \<Rightarrow> [] | Some v \<Rightarrow> v)"

definition user_row ::
  "account_id \<Rightarrow> account_name \<Rightarrow> permission_set_arn \<Rightarrow> perm_name \<Rightarrow> perm_desc
     \<Rightarrow> principal_type \<Rightarrow> username \<Rightarrow> user_displayname \<Rightarrow> (string \<times> string) list" where
  "user_row account_id account_name permission_set perm_name perm_desc principal_type
       username user_displayname =
     [(''ACCOUNT_ID'', account_id),
      (''ACCOUNT_NAME'', account_name),
      (''PERM_ARN'', permission_set),
      (''PERMISSION'', perm_name),
      (''PERM_DESC'', perm_desc),
      (''PRINCIPAL_TYPE'', principal_type),
      (''USER_ID'', username),
      (''USER_NAME'', user_displayname)]"

definition group_row ::
  "account_id \<Rightarrow> account_name \<Rightarrow> permission_set_arn \<Rightarrow> perm_name \<Rightarrow> perm_desc
     \<Rightarrow> principal_type \<Rightarrow> group_name \<Rightarrow> group_desc \<Rightarrow> username \<Rightarrow> user_displayname
     \<Rightarrow> (string \<times> string) list" where
  "group_row account_id account_name permission_set perm_name perm_desc principal_type
       group_name group_desc username user_displayname =
     [(''ACCOUNT_ID'', account_id),
      (''ACCOUNT_NAME'', account_name),
      (''PERM_ARN'', permission_set),
      (''PERMISSION'', perm_name),
      (''PERM_DESC'', perm_desc),
      (''PRINCIPAL_TYPE'', principal_type),
      (''GROUP'', group_name),
      (''GROUP_DESC'', group_desc),
      (''USER_ID'', username),
      (''USER_NAME'', user_displayname)]"

text \<open>The loop over the members of a group (lines 71 to 84).\<close>

fun emit_members ::
  "account_id \<Rightarrow> account_name \<Rightarrow> permission_set_arn \<Rightarrow> perm_name \<Rightarrow> perm_desc
     \<Rightarrow> principal_type \<Rightarrow> group_name \<Rightarrow> group_desc
     \<Rightarrow> (username \<times> user_displayname) list \<Rightarrow> report_state \<Rightarrow> (py_error + unit) \<times> report_state" where
  "emit_members account_id account_name permission_set perm_name perm_desc principal_type
       group_name group_desc [] st = (Inr (), st)"
| "emit_members account_id account_name permission_set perm_name perm_desc principal_type
       group_name group_desc (member # members) st =
     (case writerow field_names
             (group_row account_id account_name permission_set perm_name perm_desc principal_type
                group_name group_desc (fst member) (snd member)) of
        Inl e \<Rightarrow> (Inl e, st)
      | Inr line \<Rightarrow>
          emit_members account_id account_name permission_set perm_name perm_desc principal_type
            group_name group_desc members (st\<lparr>csv_rows := csv_rows st @ [line]\<rparr>))"

text \<open>The body of the loop over the assignments (lines 54 to 84): the \<^verbatim>\<open>if\<close>
  statement for a user, \<open>emit_user\<close>, and after it the one for a group,
  \<open>emit_group\<close>. A missing key of \<^verbatim>\<open>user_map\<close> or \<^verbatim>\<open>group_map\<close> raises
  \<^verbatim>\<open>KeyError\<close>.\<close>

definition emit_user ::
  "user_map \<Rightarrow> account_id \<Rightarrow> account_name \<Rightarrow> permission_set_arn \<Rightarrow> perm_name \<Rightarrow> perm_desc
     \<Rightarrow> principal_type \<Rightarrow> principal_id
     \<Rightarrow> report_state \<Rightarrow> (py_error + unit) \<times> report_state" where
  "emit_user user_map account_id account_name permission_set perm_name perm_desc
       principal_type principal_id st =
     (if principal_type = ''USER'' then
        (case user_map principal_id of
           None \<Rightarrow> (Inl KeyError, st)
         | Some (username, user_displayname) \<Rightarrow>
             (case writerow field_names
                     (user_row account_id account_name permission_set perm_name perm_desc
                        principal_type username user_displayname) of
                Inl e \<Rightarrow> (Inl e, st)
              | Inr line \<Rightarrow> (Inr (), st\<lparr>csv_rows := csv_rows st @ [line]\<rparr>)))
      else (Inr (), st))"

definition emit_group ::
  "group_map \<Rightarrow> account_id \<Rightarrow> account_name \<Rightarrow> permission_set_arn \<Rightarrow> perm_name \<Rightarrow> perm_desc
     \<Rightarrow> principal_type \<Rightarrow> principal_id
     \<Rightarrow> report_state \<Rightarrow> (py_error + unit) \<times> report_state" where
  "emit_group group_map account_id account_name permission_set perm_name perm_desc
       principal_type principal_id st =
     (if principal_type = ''GROUP'' then
        (case group_map principal_id of
           None \<Rightarrow> (Inl KeyError, st)
         | Some (group_name, group_desc, members) \<Rightarrow>
             emit_members account_id account_name permission_set perm_name perm_desc
               principal_type group_name group_desc members st)
      else (Inr (), st))"

definition process_assignment ::
  "user_map \<Rightarrow> group_map \<Rightarrow> account_id \<Rightarrow> account_name \<Rightarrow> permission_set_arn \<Rightarrow> perm_name \<Rightarrow> perm_desc
     \<Rightarrow> account_assignment \<Rightarrow> report_state \<Rightarrow> (py_error + unit) \<times> report_state" where
  "process_assignment user_map group_map account_id account_name permission_set perm_name
       perm_desc assignment st =
     (case emit_user user_map account_id account_name permission_set perm_name perm_desc
             (PrincipalType assignment) (PrincipalId assignment) st of
        (Inl e, st') \<Rightarrow> (Inl e, st')
      | (Inr u, st') \<Rightarrow>
          emit_group group_map account_id account_name permission_set perm_name perm_desc
            (PrincipalType assignment) (PrincipalId assignment) st')"

fun process_assignments ::
  "user_map \<Rightarrow> group_map \<Rightarrow> account_id \<Rightarrow> account_name \<Rightarrow> permission_set_arn \<Rightarrow> perm_name \<Rightarrow> perm_desc
     \<Rightarrow> account_assignment list \<Rightarrow> report_state \<Rightarrow> (py_error + unit) \<times> report_state" where
  "process_assignments user_map group_map account_id account_name permission_set perm_name
       perm_desc [] st = (Inr (), st)"
| "process_assignments user_map group_map account_id account_name permission_set perm_name
       perm_desc (assignment # assignments) st =
     (case process_assignment user_map group_map account_id account_name permission_set
             perm_name perm_desc assignment st of
        (Inl e, st') \<Rightarrow> (Inl e, st')
      | (Inr u, st') \<Rightarrow>
          process_assignments user_map group_map account_id account_name permission_set
            perm_name perm_desc assignments st')"

text \<open>The loop over the permission sets of an account (lines 46 to 84).\<close>

fun process_permission_sets ::
  "aws \<Rightarrow> user_map \<Rightarrow> group_map \<Rightarrow> account_id \<Rightarrow> account_name \<Rightarrow> permission_set_arn list
     \<Rightarrow> report_state
     \<Rightarrow> (py_error + unit) \<times> report_state" where
  "process_permission_sets w user_map group_map account_id account_name [] st = (Inr (), st)"
| "process_permission_sets w user_map group_map account_id account_name
       (permission_set # permission_sets) st =
     (case describe_permission_set w permission_set st of
        (Inl e, st') \<Rightarrow> (Inl e, st')
      | (Inr perm_info, st') \<Rightarrow>
          (case generate_account_assignments w account_id permission_set of
             Inl e \<Rightarrow> (Inl e, st')
           | Inr assignments \<Rightarrow>
               (case process_assignments user_map group_map account_id account_name
                       permission_set (Name perm_info)
                       (case Description perm_info of None \<Rightarrow> [] | Some d \<Rightarrow> d)
                       assignments st' of
                  (Inl e, st'') \<Rightarrow> (Inl e, st'')
                | (Inr u, st'') \<Rightarrow>
                    process_permission_sets w user_map group_map account_id account_name
                      permission_sets st'')))"

text \<open>The loop over the accounts (lines 44 to 84).\<close>

fun process_accounts ::
  "aws \<Rightarrow> user_map \<Rightarrow> group_map \<Rightarrow> (account_id \<times> account_name) list \<Rightarrow> report_state
     \<Rightarrow> (py_error + unit) \<times> report_state" where
  "process_accounts w user_map group_map [] st = (Inr (), st)"
| "process_accounts w user_map group_map (account # accounts) st =
     (case generate_permission_sets_for_account w (fst account) of
        Inl e \<Rightarrow> (Inl e, st)
      | Inr permission_sets \<Rightarrow>
          (case process_permission_sets w user_map group_map (fst account) (snd account)
                  permission_sets st of
             (Inl e, st') \<Rightarrow> (Inl e, st')
           | (Inr u, st') \<Rightarrow> process_accounts w user_map group_map accounts st'))"

text \<open>
  The program: the directory is loaded before the report is opened; the header is
  written when the report is opened; both caches are empty when the run starts.
\<close>

definition initial_state :: report_state where
  "initial_state = \<lparr>ps_cache = [], describe_calls = [], csv_rows = [field_names]\<rparr>"

definition main :: "aws \<Rightarrow> run_result" where
  "main w =
     (case load_directory w of
        Inl e \<Rightarrow> \<lparr>outcome = Inl e, sso_report_csv = None, describe_api_calls = []\<rparr>
      | Inr (user_map, group_map) \<Rightarrow>
          (case process_accounts w user_map group_map (generate_accounts w) initial_state of
             (r, st) \<Rightarrow>
               \<lparr>outcome = r, sso_report_csv = Some (csv_rows st),
                describe_api_calls = describe_calls st\<rparr>))"

subsection \<open>Reading a run\<close>

text \<open>The lines a step has added to the report, between the state before and the state after.\<close>

definition emitted :: "report_state \<Rightarrow> report_state \<Rightarrow> string list list" where
  "emitted st st' = drop (length (csv_rows st)) (csv_rows st')"

text \<open>What the body of the assignment loop does, in closed form: whether it raises, and the
  lines it writes.\<close>

definition assignment_ok :: "user_map \<Rightarrow> group_map \<Rightarrow> account_assignment \<Rightarrow> bool" where
  "assignment_ok um gm x =
     (if PrincipalType x = ''USER'' then um (PrincipalId x) \<noteq> None
      else if PrincipalType x = ''GROUP'' then gm (PrincipalId x) \<noteq> None
      else True)"

definition assignment_rows ::
  "user_map \<Rightarrow> group_map \<Rightarrow> account_id \<Rightarrow> account_name \<Rightarrow> permission_set_arn \<Rightarrow> perm_name \<Rightarrow> perm_desc
     \<Rightarrow> account_assignment \<Rightarrow> string list list" where
  "assignment_rows um gm a an ps pn pd x =
     (if PrincipalType x = ''USER'' then
        (case um (PrincipalId x) of
           None \<Rightarrow> []
         | Some m \<Rightarrow> [[a, an, ps, pn, pd, ''USER'', [], [], fst m, snd m]])
      else if PrincipalType x = ''GROUP'' then
        (case gm (PrincipalId x) of
           None \<Rightarrow> []
         | Some g \<Rightarrow>
             map (\<lambda>m. [a, an, ps, pn, pd, ''GROUP'', fst g, fst (snd g), fst m, snd m]) (snd (snd g)))
      else [])"



subsection \<open>Example identity centres\<close>

text \<open>
  Two users, one group whose membership listing names \<^verbatim>\<open>u2\<close> twice (on two pages),
  two accounts with the same permission set, and three assignments for each pair of
  account and permission set. \<open>example_user_map\<close> and \<open>example_group_map\<close> are the
  dictionaries that the program builds from it.
\<close>

definition example_world :: aws where
  "example_world =
     \<lparr>list_instances = [\<lparr>IdentityStoreId = ''d-1'', InstanceArn = ''arn:ic''\<rparr>],
      list_users = (\<lambda>sid.
        [[\<lparr>UserId = ''u1'', UserName = ''alice'', DisplayName = ''Alice A''\<rparr>],
         [\<lparr>UserId = ''u2'', UserName = ''bob'', DisplayName = ''Bob B''\<rparr>]]),
      list_groups = (\<lambda>sid.
        [[\<lparr>GroupId = ''g1'', GroupDisplayName = ''Admins'', GroupDescription = None\<rparr>]]),
      list_group_memberships = (\<lambda>sid gid. [[''u2''], [''u1'', ''u2'']]),
      list_accounts =
        [[\<lparr>AccountId = ''111'', AccountName = ''Prod''\<rparr>],
         [\<lparr>AccountId = ''222'', AccountName = ''Dev''\<rparr>]],
      list_permission_sets_provisioned_to_account = (\<lambda>aid arn. [[''ps-1'']]),
      api_describe_permission_set = (\<lambda>arn ps. \<lparr>Name = ''Admin'', Description = Some ''full access''\<rparr>),
      list_account_assignments = (\<lambda>aid arn ps.
        [[\<lparr>PrincipalType = ''GROUP'', PrincipalId = ''g1''\<rparr>],
         [\<lparr>PrincipalType = ''ROLE'', PrincipalId = ''r1''\<rparr>,
          \<lparr>PrincipalType = ''USER'', PrincipalId = ''u1''\<rparr>]])\<rparr>"

definition example_user_map :: user_map where
  "example_user_map = [''u1'' \<mapsto> (''alice'', ''Alice A''), ''u2'' \<mapsto> (''bob'', ''Bob B'')]"

definition example_group_map :: group_map where
  "example_group_map =
     [''g1'' \<mapsto> (''Admins'', '''',
        [(''alice'', ''Alice A''), (''bob'', ''Bob B''), (''bob'', ''Bob B'')])]"

text \<open>The same, with a membership of a user that the user listing does not return.\<close>

definition orphan_world :: aws where
  "orphan_world = example_world\<lparr>list_group_memberships := (\<lambda>sid gid. [[''u1'', ''u9'']])\<rparr>"

text \<open>The same, with a direct assignment to a user that the user listing does not
  return.\<close>

definition stray_world :: aws where
  "stray_world =
     example_world\<lparr>list_account_assignments := (\<lambda>aid arn ps.
        [[\<lparr>PrincipalType = ''GROUP'', PrincipalId = ''g1''\<rparr>],
         [\<lparr>PrincipalType = ''USER'', PrincipalId = ''u9''\<rparr>,
          \<lparr>PrincipalType = ''USER'', PrincipalId = ''u1''\<rparr>]])\<rparr>"

text \<open>The same without its instance.\<close>

definition no_instance_world :: aws where
  "no_instance_world = example_world\<lparr>list_instances := []\<rparr>"


section \<open>Properties\<close>

subsection \<open>Auxiliary facts\<close>

paragraph \<open>Lines and columns\<close>

lemma writerow_user_row:
  "writerow field_names (user_row a an ps pn pd pt u ud) = Inr [a, an, ps, pn, pd, pt, [], [], u, ud]"
  by (simp add: writerow_def field_names_def user_row_def)

lemma writerow_group_row:
  "writerow field_names (group_row a an ps pn pd pt gn gd u ud) = Inr [a, an, ps, pn, pd, pt, gn, gd, u, ud]"
  by (simp add: writerow_def field_names_def group_row_def)

lemma emit_members_eq:
  "emit_members a an ps pn pd pt gn gd members st =
     (Inr (), st\<lparr>csv_rows := csv_rows st @ map (\<lambda>m. [a, an, ps, pn, pd, pt, gn, gd, fst m, snd m]) members\<rparr>)"
  by (induction members arbitrary: st) (simp_all add: writerow_group_row)

lemma csv_column_line:
  "csv_column c [a, an, ps, pn, pd, pt, gn, gd, u, ud] =
    (if c = ''ACCOUNT_ID'' then a else if c = ''ACCOUNT_NAME'' then an else if c = ''PERM_ARN'' then ps
     else if c = ''PERMISSION'' then pn else if c = ''PERM_DESC'' then pd else if c = ''PRINCIPAL_TYPE'' then pt
     else if c = ''GROUP'' then gn else if c = ''GROUP_DESC'' then gd else if c = ''USER_ID'' then u
     else if c = ''USER_NAME'' then ud else [])"
  by (simp add: csv_column_def field_names_def)

paragraph \<open>The body of the assignment loop, case by case\<close>

lemma emit_user_not_user:
  "pt \<noteq> ''USER'' \<Longrightarrow> emit_user um a an ps pn pd pt pid st = (Inr (), st)"
  by (simp add: emit_user_def)

lemma emit_user_found:
  "um pid = Some (u, ud) \<Longrightarrow>
   emit_user um a an ps pn pd ''USER'' pid st =
     (Inr (), st\<lparr>csv_rows := csv_rows st @ [[a, an, ps, pn, pd, ''USER'', [], [], u, ud]]\<rparr>)"
  by (simp add: emit_user_def writerow_user_row)

lemma emit_user_missing:
  "um pid = None \<Longrightarrow> emit_user um a an ps pn pd ''USER'' pid st = (Inl KeyError, st)"
  by (simp add: emit_user_def)

lemma emit_group_not_group:
  "pt \<noteq> ''GROUP'' \<Longrightarrow> emit_group gm a an ps pn pd pt pid st = (Inr (), st)"
  by (simp add: emit_group_def)

lemma emit_group_found:
  "gm pid = Some (gn, gd, members) \<Longrightarrow>
   emit_group gm a an ps pn pd ''GROUP'' pid st =
     (Inr (), st\<lparr>csv_rows := csv_rows st @ map (\<lambda>m. [a, an, ps, pn, pd, ''GROUP'', gn, gd, fst m, snd m]) members\<rparr>)"
  by (simp add: emit_group_def emit_members_eq)

lemma emit_group_missing:
  "gm pid = None \<Longrightarrow> emit_group gm a an ps pn pd ''GROUP'' pid st = (Inl KeyError, st)"
  by (simp add: emit_group_def)

lemma process_assignment_user:
  "PrincipalType x = ''USER'' \<Longrightarrow> um (PrincipalId x) = Some (u, ud) \<Longrightarrow>
   process_assignment um gm a an ps pn pd x st =
     (Inr (), st\<lparr>csv_rows := csv_rows st @ [[a, an, ps, pn, pd, ''USER'', [], [], u, ud]]\<rparr>)"
  by (simp add: process_assignment_def emit_user_found emit_group_not_group)

lemma process_assignment_user_missing:
  "PrincipalType x = ''USER'' \<Longrightarrow> um (PrincipalId x) = None \<Longrightarrow>
   process_assignment um gm a an ps pn pd x st = (Inl KeyError, st)"
  by (simp add: process_assignment_def emit_user_missing)

lemma process_assignment_group:
  "PrincipalType x = ''GROUP'' \<Longrightarrow> gm (PrincipalId x) = Some (gn, gd, members) \<Longrightarrow>
   process_assignment um gm a an ps pn pd x st =
     (Inr (), st\<lparr>csv_rows := csv_rows st @ map (\<lambda>m. [a, an, ps, pn, pd, ''GROUP'', gn, gd, fst m, snd m]) members\<rparr>)"
  by (simp add: process_assignment_def emit_user_not_user emit_group_found)

lemma process_assignment_group_missing:
  "PrincipalType x = ''GROUP'' \<Longrightarrow> gm (PrincipalId x) = None \<Longrightarrow>
   process_assignment um gm a an ps pn pd x st = (Inl KeyError, st)"
  by (simp add: process_assignment_def emit_user_not_user emit_group_missing)

lemma process_assignment_other:
  "PrincipalType x \<noteq> ''USER'' \<Longrightarrow> PrincipalType x \<noteq> ''GROUP'' \<Longrightarrow>
   process_assignment um gm a an ps pn pd x st = (Inr (), st)"
  by (simp add: process_assignment_def emit_user_not_user emit_group_not_group)

lemma emitted_append [simp]: "emitted st (st\<lparr>csv_rows := csv_rows st @ rows\<rparr>) = rows"
  by (simp add: emitted_def)

lemma emitted_same [simp]: "emitted st st = []"
  by (simp add: emitted_def)

paragraph \<open>The assignment loop in closed form\<close>

lemma process_assignment_eq:
  "process_assignment um gm a an ps pn pd x st =
     (if assignment_ok um gm x then Inr () else Inl KeyError,
      st\<lparr>csv_rows := csv_rows st @ assignment_rows um gm a an ps pn pd x\<rparr>)"
proof (cases "PrincipalType x = ''USER''")
  case True
  then show ?thesis
    by (cases "um (PrincipalId x)")
      (auto simp: assignment_ok_def assignment_rows_def process_assignment_user
        process_assignment_user_missing)
next
  case nu: False
  show ?thesis
  proof (cases "PrincipalType x = ''GROUP''")
    case True
    then show ?thesis
      by (cases "gm (PrincipalId x)")
        (auto simp: assignment_ok_def assignment_rows_def process_assignment_group
          process_assignment_group_missing)
  next
    case False
    with nu show ?thesis
      by (simp add: assignment_ok_def assignment_rows_def process_assignment_other)
  qed
qed

text \<open>An assignment only adds lines to the report: \<open>emitted\<close> is what it has added.\<close>

lemma process_assignment_appends:
  "csv_rows (snd (process_assignment um gm a an ps pn pd x st)) =
     csv_rows st @ emitted st (snd (process_assignment um gm a an ps pn pd x st))"
  by (simp add: process_assignment_eq)

lemma process_assignments_eq:
  "process_assignments um gm a an ps pn pd xs st =
     (if list_all (assignment_ok um gm) xs then Inr () else Inl KeyError,
      st\<lparr>csv_rows := csv_rows st @
            concat (map (assignment_rows um gm a an ps pn pd)
                      (takeWhile (assignment_ok um gm) xs))\<rparr>)"
proof (induction xs arbitrary: st)
  case Nil
  show ?case by simp
next
  case (Cons x xs)
  show ?case
  proof (cases "assignment_ok um gm x")
    case True
    then show ?thesis
      by (simp add: process_assignment_eq Cons.IH)
  next
    case False
    then have "assignment_rows um gm a an ps pn pd x = []"
      by (auto simp: assignment_ok_def assignment_rows_def split: if_splits)
    with False show ?thesis
      by (simp add: process_assignment_eq)
  qed
qed

paragraph \<open>Loading the directory\<close>

lemma resolve_members_Inr:
  "resolve_members um ids = Inr ms \<Longrightarrow> map Some ms = map um ids"
  by (induction ids arbitrary: ms) (auto split: option.splits sum.splits)

lemma resolve_members_Inl:
  "resolve_members um ids = Inl e \<Longrightarrow> e = KeyError"
  by (induction ids) (auto split: option.splits sum.splits)

lemma resolve_members_missing:
  "uid \<in> set ids \<Longrightarrow> um uid = None \<Longrightarrow> resolve_members um ids = Inl KeyError"
proof (induction ids)
  case Nil
  then show ?case by simp
next
  case (Cons i ids)
  show ?case
  proof (cases "um i")
    case None
    then show ?thesis by simp
  next
    case (Some m)
    with Cons.prems have "uid \<in> set ids" by auto
    from Cons.IH [OF this Cons.prems(2)] Some show ?thesis by simp
  qed
qed

lemma build_group_map_inv:
  assumes "build_group_map w um gm groups = Inr gm'"
    and "\<And>gid e. gm gid = Some e \<Longrightarrow> Q gid e"
    and "\<And>g ids ms. g \<in> set groups \<Longrightarrow> generate_group_memberships w (GroupId g) = Inr ids \<Longrightarrow>
           resolve_members um ids = Inr ms \<Longrightarrow>
           Q (GroupId g) (GroupDisplayName g, (case GroupDescription g of None \<Rightarrow> [] | Some d \<Rightarrow> d), sort ms)"
    and "gm' gid = Some e"
  shows "Q gid e"
  using assms
proof (induction groups arbitrary: gm)
  case Nil
  then show ?case by simp
next
  case (Cons g groups)
  from Cons.prems(1) obtain ids ms where
    ids: "generate_group_memberships w (GroupId g) = Inr ids" and
    ms: "resolve_members um ids = Inr ms" and
    rest: "build_group_map w um
             (gm(GroupId g \<mapsto> (GroupDisplayName g,
                  (case GroupDescription g of None \<Rightarrow> [] | Some d \<Rightarrow> d), sort ms))) groups = Inr gm'"
    by (auto split: sum.splits)
  show ?case
  proof (rule Cons.IH [OF rest _ _ Cons.prems(4)])
    fix gid' e'
    assume "(gm(GroupId g \<mapsto> (GroupDisplayName g,
                  (case GroupDescription g of None \<Rightarrow> [] | Some d \<Rightarrow> d), sort ms))) gid' = Some e'"
    then show "Q gid' e'"
      using Cons.prems(2) Cons.prems(3) [of g ids ms] ids ms
      by (auto split: if_splits)
  next
    fix g' ids' ms'
    assume "g' \<in> set groups" "generate_group_memberships w (GroupId g') = Inr ids'"
      "resolve_members um ids' = Inr ms'"
    then show "Q (GroupId g') (GroupDisplayName g',
        (case GroupDescription g' of None \<Rightarrow> [] | Some d \<Rightarrow> d), sort ms')"
      using Cons.prems(3) [of g' ids' ms'] by simp
  qed
qed

lemma build_group_map_Inl:
  "build_group_map w um gm groups = Inl e \<Longrightarrow> get_identity_center w = Inr ic \<Longrightarrow> e = KeyError"
proof (induction groups arbitrary: gm)
  case Nil
  then show ?case by simp
next
  case (Cons g groups)
  then show ?case
    by (auto simp: generate_group_memberships_def split: sum.splits prod.splits dest: resolve_members_Inl)
qed

lemma build_group_map_missing:
  assumes "get_identity_center w = Inr (arn, sid)"
    and "g \<in> set groups"
    and "uid \<in> set (concat (list_group_memberships w sid (GroupId g)))"
    and "um uid = None"
  shows "build_group_map w um gm groups = Inl KeyError"
  using assms(2)
proof (induction groups arbitrary: gm)
  case Nil
  then show ?case by simp
next
  case (Cons g0 groups)
  have ids: "generate_group_memberships w (GroupId g0) = Inr (concat (list_group_memberships w sid (GroupId g0)))"
    using assms(1) by (simp add: generate_group_memberships_def)
  show ?case
  proof (cases "resolve_members um (concat (list_group_memberships w sid (GroupId g0)))")
    case (Inl e)
    then show ?thesis using ids resolve_members_Inl [of um _ e] by simp
  next
    case (Inr ms)
    have "g \<noteq> g0"
    proof
      assume "g = g0"
      with resolve_members_missing [of uid _ um, OF assms(3) assms(4)] Inr show False by simp
    qed
    with Cons.prems have "g \<in> set groups" by simp
    from Cons.IH [OF this] ids Inr show ?thesis by simp
  qed
qed

paragraph \<open>Counting\<close>

lemma count_list_map_filter:
  "count_list (map f xs) t = length (filter (\<lambda>x. f x = t) xs)"
  by (induction xs) auto

lemma count_list_sort: "count_list (sort xs) t = count_list xs t"
proof -
  have "count (mset (sort xs)) t = count (mset xs) t" by simp
  then show ?thesis by (simp only: count_mset)
qed

lemma count_list_filter_eq: "count_list xs x = length (filter (\<lambda>y. y = x) xs)"
  by (induction xs) auto

paragraph \<open>The groups of a loaded directory\<close>

lemma load_directory_group:
  assumes "load_directory w = Inr (um, gm)" and "gm gid = Some (gn, gd, members)"
  obtains ids where "generate_group_memberships w gid = Inr ids"
    and "members = sort (map (\<lambda>uid. the (um uid)) ids)"
    and "\<forall>uid\<in>set ids. um uid \<noteq> None"
proof -
  from assms(1) obtain users groups where
    um: "um = build_user_map Map.empty users" and
    gm: "build_group_map w um Map.empty groups = Inr gm"
    by (auto simp: load_directory_def split: sum.splits)
  let ?Q = "\<lambda>gid e. \<exists>ids. generate_group_memberships w gid = Inr ids \<and>
     snd (snd e) = sort (map (\<lambda>uid. the (um uid)) ids) \<and> (\<forall>uid\<in>set ids. um uid \<noteq> None)"
  have "?Q gid (gn, gd, members)"
  proof (rule build_group_map_inv [where Q = ?Q, OF gm _ _ assms(2)])
    fix gid' :: string and e' :: "string \<times> string \<times> (string \<times> string) list"
    assume "Map.empty gid' = Some e'"
    then show "?Q gid' e'" by simp
  next
    fix g :: sso_group and ids ms
    assume ids: "generate_group_memberships w (GroupId g) = Inr ids"
      and ms: "resolve_members um ids = Inr ms"
    from resolve_members_Inr [OF ms] have eq: "map Some ms = map um ids" .
    have some: "\<forall>uid\<in>set ids. um uid \<noteq> None"
    proof
      fix uid assume "uid \<in> set ids"
      then have "um uid \<in> set (map um ids)" by simp
      with eq have "um uid \<in> set (map Some ms)" by simp
      then show "um uid \<noteq> None" by auto
    qed
    have "map the (map Some ms) = map the (map um ids)" using eq by simp
    then have "ms = map (\<lambda>uid. the (um uid)) ids" by (simp add: o_def)
    with ids some
    show "?Q (GroupId g) (GroupDisplayName g, (case GroupDescription g of None \<Rightarrow> [] | Some d \<Rightarrow> d), sort ms)"
      by simp
  qed
  then show thesis using that by auto
qed

paragraph \<open>The description cache\<close>


lemma describe_permission_set_ok:
  "get_identity_center w = Inr ic \<Longrightarrow> \<exists>info. fst (describe_permission_set w ps st) = Inr info"
  by (cases ic) (simp add: describe_permission_set_def split: option.splits)





paragraph \<open>How a run ends\<close>

lemma main_loaded:
  "load_directory w = Inr (um, gm) \<Longrightarrow>
   outcome (main w) = fst (process_accounts w um gm (generate_accounts w) initial_state) \<and>
   sso_report_csv (main w) =
     Some (csv_rows (snd (process_accounts w um gm (generate_accounts w) initial_state))) \<and>
   describe_api_calls (main w) =
     describe_calls (snd (process_accounts w um gm (generate_accounts w) initial_state))"
  by (simp add: main_def case_prod_beta)

lemma process_assignments_append:
  "process_assignments um gm a an ps pn pd (xs @ ys) st =
     (case process_assignments um gm a an ps pn pd xs st of
        (Inl e, st') \<Rightarrow> (Inl e, st')
      | (Inr u, st') \<Rightarrow> process_assignments um gm a an ps pn pd ys st')"
  by (induction xs arbitrary: st) (auto split: prod.splits sum.splits)

lemma generate_account_assignments_ic:
  "get_identity_center w = Inr (arn, sid) \<Longrightarrow>
   generate_account_assignments w a ps = Inr (concat (list_account_assignments w a arn ps))"
  by (simp add: generate_account_assignments_def)

lemma generate_permission_sets_ic:
  "get_identity_center w = Inr (arn, sid) \<Longrightarrow>
   generate_permission_sets_for_account w a =
     Inr (concat (list_permission_sets_provisioned_to_account w a arn))"
  by (simp add: generate_permission_sets_for_account_def)

lemma process_permission_sets_outcome:
  assumes ic: "get_identity_center w = Inr (arn, sid)"
  shows "fst (process_permission_sets w um gm a an pss st) =
     (if list_all (\<lambda>ps. list_all (assignment_ok um gm) (concat (list_account_assignments w a arn ps))) pss
      then Inr () else Inl KeyError)"
proof (induction pss arbitrary: st)
  case Nil
  show ?case by simp
next
  case (Cons ps pss)
  obtain r st1 where d: "describe_permission_set w ps st = (r, st1)"
    by (cases "describe_permission_set w ps st")
  from describe_permission_set_ok [OF ic, of ps st] d obtain info where r: "r = Inr info" by auto
  let ?p = "process_assignments um gm a an ps (Name info)
              (case Description info of None \<Rightarrow> [] | Some d \<Rightarrow> d)
              (concat (list_account_assignments w a arn ps)) st1"
  obtain r2 st2 where p: "?p = (r2, st2)" by (cases ?p)
  have r2: "r2 = (if list_all (assignment_ok um gm) (concat (list_account_assignments w a arn ps))
                  then Inr () else Inl KeyError)"
    using p by (simp add: process_assignments_eq)
  show ?case
    using d r p r2 Cons.IH [of st2]
    by (simp add: generate_account_assignments_ic [OF ic])
qed

lemma process_accounts_outcome:
  assumes ic: "get_identity_center w = Inr (arn, sid)"
  shows "fst (process_accounts w um gm accounts st) =
     (if list_all (\<lambda>account.
           list_all (\<lambda>ps. list_all (assignment_ok um gm)
                             (concat (list_account_assignments w (fst account) arn ps)))
             (concat (list_permission_sets_provisioned_to_account w (fst account) arn))) accounts
      then Inr () else Inl KeyError)"
proof (induction accounts arbitrary: st)
  case Nil
  show ?case by simp
next
  case (Cons account accounts)
  let ?p = "process_permission_sets w um gm (fst account) (snd account)
              (concat (list_permission_sets_provisioned_to_account w (fst account) arn)) st"
  obtain r st1 where p: "?p = (r, st1)" by (cases ?p)
  have r: "r = (if list_all (\<lambda>ps. list_all (assignment_ok um gm)
                        (concat (list_account_assignments w (fst account) arn ps)))
                  (concat (list_permission_sets_provisioned_to_account w (fst account) arn))
                then Inr () else Inl KeyError)"
    using process_permission_sets_outcome [OF ic, of um gm "fst account" "snd account"
        "concat (list_permission_sets_provisioned_to_account w (fst account) arn)" st] p
    by simp
  show ?case
    using p r Cons.IH [of st1]
    by (simp add: generate_permission_sets_ic [OF ic])
qed

lemma not_list_allI: "x \<in> set xs \<Longrightarrow> \<not> P x \<Longrightarrow> \<not> list_all P xs"
  by (auto simp: list_all_iff)

lemma load_directory_ic:
  assumes "load_directory w = Inr (um, gm)"
  obtains arn sid where "get_identity_center w = Inr (arn, sid)"
proof (cases "get_identity_center w")
  case (Inl e)
  with assms show ?thesis by (simp add: load_directory_def generate_users_def)
next
  case (Inr ic)
  then show ?thesis using that by (cases ic) simp
qed

paragraph \<open>The lines of a run\<close>






paragraph \<open>The example identity centres\<close>

lemmas listing_defs =
  get_identity_center_def generate_users_def generate_groups_def generate_group_memberships_def
  generate_accounts_def generate_permission_sets_for_account_def generate_account_assignments_def

lemma load_example_world:
  "load_directory example_world = Inr (example_user_map, example_group_map)"
  by (simp add: load_directory_def listing_defs example_world_def example_user_map_def
      example_group_map_def)

lemma load_stray_world:
  "load_directory stray_world = Inr (example_user_map, example_group_map)"
  by (simp add: load_directory_def listing_defs stray_world_def example_world_def
      example_user_map_def example_group_map_def)

lemma main_example_world:
  "main example_world =
     \<lparr>outcome = Inr (),
      sso_report_csv = Some
        [field_names,
         [''111'', ''Prod'', ''ps-1'', ''Admin'', ''full access'', ''GROUP'', ''Admins'', '''', ''alice'', ''Alice A''],
         [''111'', ''Prod'', ''ps-1'', ''Admin'', ''full access'', ''GROUP'', ''Admins'', '''', ''bob'', ''Bob B''],
         [''111'', ''Prod'', ''ps-1'', ''Admin'', ''full access'', ''GROUP'', ''Admins'', '''', ''bob'', ''Bob B''],
         [''111'', ''Prod'', ''ps-1'', ''Admin'', ''full access'', ''USER'', '''', '''', ''alice'', ''Alice A''],
         [''222'', ''Dev'', ''ps-1'', ''Admin'', ''full access'', ''GROUP'', ''Admins'', '''', ''alice'', ''Alice A''],
         [''222'', ''Dev'', ''ps-1'', ''Admin'', ''full access'', ''GROUP'', ''Admins'', '''', ''bob'', ''Bob B''],
         [''222'', ''Dev'', ''ps-1'', ''Admin'', ''full access'', ''GROUP'', ''Admins'', '''', ''bob'', ''Bob B''],
         [''222'', ''Dev'', ''ps-1'', ''Admin'', ''full access'', ''USER'', '''', '''', ''alice'', ''Alice A'']],
      describe_api_calls = [''ps-1'']\<rparr>"
  by (simp add: main_def load_example_world)
     (simp add: example_world_def example_user_map_def example_group_map_def listing_defs
        initial_state_def describe_permission_set_def lru_maxsize_def process_assignment_eq
        assignment_ok_def assignment_rows_def)

subsection \<open>The claims\<close>

text \<open>
  C1 (as amended). An assignment of principal type GROUP to a group of the group map
  writes one line per entry of the group's member list, in the order of the list, each
  with the group's name and description in the columns GROUP and GROUP_DESC. An
  assignment of principal type USER whose principal id is a key of the user map writes
  exactly one line, with empty GROUP and GROUP_DESC columns.
\<close>

theorem C1_fan_out:
  "(PrincipalType x = ''GROUP'' \<and> gm (PrincipalId x) = Some (gn, gd, members) \<longrightarrow>
      fst (process_assignment um gm a an ps pn pd x st) = Inr () \<and>
      csv_rows (snd (process_assignment um gm a an ps pn pd x st)) =
        csv_rows st @ emitted st (snd (process_assignment um gm a an ps pn pd x st)) \<and>
      length (emitted st (snd (process_assignment um gm a an ps pn pd x st))) = length members \<and>
      map (\<lambda>l. (csv_column ''USER_ID'' l, csv_column ''USER_NAME'' l))
        (emitted st (snd (process_assignment um gm a an ps pn pd x st))) = members \<and>
      list_all (\<lambda>l. csv_column ''GROUP'' l = gn \<and> csv_column ''GROUP_DESC'' l = gd)
        (emitted st (snd (process_assignment um gm a an ps pn pd x st)))) \<and>
   (PrincipalType x = ''USER'' \<and> um (PrincipalId x) = Some (u, ud) \<longrightarrow>
      fst (process_assignment um gm a an ps pn pd x st) = Inr () \<and>
      csv_rows (snd (process_assignment um gm a an ps pn pd x st)) =
        csv_rows st @ emitted st (snd (process_assignment um gm a an ps pn pd x st)) \<and>
      length (emitted st (snd (process_assignment um gm a an ps pn pd x st))) = 1 \<and>
      list_all (\<lambda>l. csv_column ''GROUP'' l = [] \<and> csv_column ''GROUP_DESC'' l = [])
        (emitted st (snd (process_assignment um gm a an ps pn pd x st))))"
proof (intro conjI impI)
  assume g: "PrincipalType x = ''GROUP'' \<and> gm (PrincipalId x) = Some (gn, gd, members)"
  note eq = process_assignment_group [of x gm gn gd members um a an ps pn pd st]
  from g eq show "fst (process_assignment um gm a an ps pn pd x st) = Inr ()" by simp
  show "csv_rows (snd (process_assignment um gm a an ps pn pd x st)) =
      csv_rows st @ emitted st (snd (process_assignment um gm a an ps pn pd x st))"
    by (rule process_assignment_appends)
  from g eq show "length (emitted st (snd (process_assignment um gm a an ps pn pd x st))) = length members"
    by simp
  from g eq show "map (\<lambda>l. (csv_column ''USER_ID'' l, csv_column ''USER_NAME'' l))
        (emitted st (snd (process_assignment um gm a an ps pn pd x st))) = members"
    by (simp add: csv_column_line o_def)
  from g eq show "list_all (\<lambda>l. csv_column ''GROUP'' l = gn \<and> csv_column ''GROUP_DESC'' l = gd)
        (emitted st (snd (process_assignment um gm a an ps pn pd x st)))"
    by (simp add: csv_column_line list_all_iff)
next
  assume u: "PrincipalType x = ''USER'' \<and> um (PrincipalId x) = Some (u, ud)"
  note eq = process_assignment_user [of x um u ud gm a an ps pn pd st]
  from u eq show "fst (process_assignment um gm a an ps pn pd x st) = Inr ()" by simp
  show "csv_rows (snd (process_assignment um gm a an ps pn pd x st)) =
      csv_rows st @ emitted st (snd (process_assignment um gm a an ps pn pd x st))"
    by (rule process_assignment_appends)
  from u eq show "length (emitted st (snd (process_assignment um gm a an ps pn pd x st))) = 1"
    by simp
  from u eq show "list_all (\<lambda>l. csv_column ''GROUP'' l = [] \<and> csv_column ''GROUP_DESC'' l = [])
        (emitted st (snd (process_assignment um gm a an ps pn pd x st)))"
    by (simp add: csv_column_line)
qed

theorem C1_fan_out_witness:
  "PrincipalType \<lparr>PrincipalType = ''GROUP'', PrincipalId = ''g1''\<rparr> = ''GROUP'' \<and>
   example_group_map ''g1'' =
     Some (''Admins'', '''', [(''alice'', ''Alice A''), (''bob'', ''Bob B''), (''bob'', ''Bob B'')]) \<and>
   length (emitted initial_state (snd (process_assignment example_user_map example_group_map
      ''111'' ''Prod'' ''ps-1'' ''Admin'' ''full access''
      \<lparr>PrincipalType = ''GROUP'', PrincipalId = ''g1''\<rparr> initial_state))) = 3 \<and>
   PrincipalType \<lparr>PrincipalType = ''USER'', PrincipalId = ''u1''\<rparr> = ''USER'' \<and>
   example_user_map ''u1'' = Some (''alice'', ''Alice A'') \<and>
   length (emitted initial_state (snd (process_assignment example_user_map example_group_map
      ''111'' ''Prod'' ''ps-1'' ''Admin'' ''full access''
      \<lparr>PrincipalType = ''USER'', PrincipalId = ''u1''\<rparr> initial_state))) = 1"
  using
    C1_fan_out [where x = "\<lparr>PrincipalType = ''GROUP'', PrincipalId = ''g1''\<rparr>"
      and gm = example_group_map and um = example_user_map
      and gn = "''Admins''" and gd = "''''"
      and members = "[(''alice'', ''Alice A''), (''bob'', ''Bob B''), (''bob'', ''Bob B'')]"
      and a = "''111''" and an = "''Prod''" and ps = "''ps-1''" and pn = "''Admin''"
      and pd = "''full access''" and st = initial_state]
    C1_fan_out [where x = "\<lparr>PrincipalType = ''USER'', PrincipalId = ''u1''\<rparr>"
      and gm = example_group_map and um = example_user_map
      and u = "''alice''" and ud = "''Alice A''"
      and a = "''111''" and an = "''Prod''" and ps = "''ps-1''" and pn = "''Admin''"
      and pd = "''full access''" and st = initial_state]
  by (simp add: example_user_map_def example_group_map_def)

text \<open>
  C1 as stated fails for a USER assignment whose principal id is not a key of the user
  map: the lookup raises \<^verbatim>\<open>KeyError\<close> and no line is written.
\<close>

theorem C1_unknown_user_counterexample:
  "PrincipalType \<lparr>PrincipalType = ''USER'', PrincipalId = ''u9''\<rparr> = ''USER'' \<and>
   process_assignment example_user_map example_group_map
      ''111'' ''Prod'' ''ps-1'' ''Admin'' ''full access''
      \<lparr>PrincipalType = ''USER'', PrincipalId = ''u9''\<rparr> initial_state = (Inl KeyError, initial_state) \<and>
   length (emitted initial_state (snd (process_assignment example_user_map example_group_map
      ''111'' ''Prod'' ''ps-1'' ''Admin'' ''full access''
      \<lparr>PrincipalType = ''USER'', PrincipalId = ''u9''\<rparr> initial_state))) \<noteq> 1"
  by (simp add: process_assignment_def emit_user_def emitted_def example_user_map_def)

text \<open>
  C2. The lines written for an assignment of principal type GROUP agree in every
  column other than USER_ID and USER_NAME, so in ACCOUNT_ID, ACCOUNT_NAME, PERM_ARN,
  PERMISSION, PERM_DESC, PRINCIPAL_TYPE, GROUP and GROUP_DESC.
\<close>

theorem C2_group_rows_share_columns:
  "PrincipalType x = ''GROUP'' \<Longrightarrow>
   l \<in> set (emitted st (snd (process_assignment um gm a an ps pn pd x st))) \<Longrightarrow>
   l' \<in> set (emitted st (snd (process_assignment um gm a an ps pn pd x st))) \<Longrightarrow>
   c \<noteq> ''USER_ID'' \<Longrightarrow> c \<noteq> ''USER_NAME'' \<Longrightarrow>
   csv_column c l = csv_column c l'"
proof -
  assume g: "PrincipalType x = ''GROUP''"
    and l: "l \<in> set (emitted st (snd (process_assignment um gm a an ps pn pd x st)))"
    and l': "l' \<in> set (emitted st (snd (process_assignment um gm a an ps pn pd x st)))"
    and c: "c \<noteq> ''USER_ID''" "c \<noteq> ''USER_NAME''"
  show ?thesis
  proof (cases "gm (PrincipalId x)")
    case None
    with g l show ?thesis
      by (simp add: process_assignment_group_missing)
  next
    case (Some e)
    obtain gn gd members where e: "e = (gn, gd, members)" by (cases e)
    from g Some e l l' obtain m1 m2 where
      "l = [a, an, ps, pn, pd, ''GROUP'', gn, gd, fst m1, snd m1]"
      "l' = [a, an, ps, pn, pd, ''GROUP'', gn, gd, fst m2, snd m2]"
      by (auto simp: process_assignment_group)
    with c show ?thesis
      by (simp add: csv_column_line)
  qed
qed

theorem C2_group_rows_share_columns_witness:
  "PrincipalType \<lparr>PrincipalType = ''GROUP'', PrincipalId = ''g1''\<rparr> = ''GROUP'' \<and>
   [''111'', ''Prod'', ''ps-1'', ''Admin'', ''full access'', ''GROUP'', ''Admins'', '''', ''alice'', ''Alice A'']
     \<in> set (emitted initial_state (snd (process_assignment example_user_map example_group_map
          ''111'' ''Prod'' ''ps-1'' ''Admin'' ''full access''
          \<lparr>PrincipalType = ''GROUP'', PrincipalId = ''g1''\<rparr> initial_state))) \<and>
   [''111'', ''Prod'', ''ps-1'', ''Admin'', ''full access'', ''GROUP'', ''Admins'', '''', ''bob'', ''Bob B'']
     \<in> set (emitted initial_state (snd (process_assignment example_user_map example_group_map
          ''111'' ''Prod'' ''ps-1'' ''Admin'' ''full access''
          \<lparr>PrincipalType = ''GROUP'', PrincipalId = ''g1''\<rparr> initial_state))) \<and>
   ''GROUP'' \<noteq> ''USER_ID'' \<and> ''GROUP'' \<noteq> ''USER_NAME'' \<and>
   csv_column ''GROUP''
     [''111'', ''Prod'', ''ps-1'', ''Admin'', ''full access'', ''GROUP'', ''Admins'', '''', ''alice'', ''Alice A''] =
   csv_column ''GROUP''
     [''111'', ''Prod'', ''ps-1'', ''Admin'', ''full access'', ''GROUP'', ''Admins'', '''', ''bob'', ''Bob B'']"
  using
    C2_group_rows_share_columns [where x = "\<lparr>PrincipalType = ''GROUP'', PrincipalId = ''g1''\<rparr>"
      and gm = example_group_map and um = example_user_map
      and a = "''111''" and an = "''Prod''" and ps = "''ps-1''" and pn = "''Admin''"
      and pd = "''full access''" and st = initial_state and c = "''GROUP''"
      and l = "[''111'', ''Prod'', ''ps-1'', ''Admin'', ''full access'', ''GROUP'', ''Admins'', '''', ''alice'', ''Alice A'']"
      and l' = "[''111'', ''Prod'', ''ps-1'', ''Admin'', ''full access'', ''GROUP'', ''Admins'', '''', ''bob'', ''Bob B'']"]
  by (simp add: process_assignment_eq assignment_ok_def assignment_rows_def example_group_map_def)






text \<open>
  C5. The member list of every group of the loaded group map is sorted in ascending
  order of the pairs (user name, display name), and the lines written for an assignment
  of principal type GROUP to that group carry the members in that order.
\<close>

theorem C5_members_sorted:
  assumes "load_directory w = Inr (um, gm)"
    and "gm gid = Some (gn, gd, members)"
    and "PrincipalType x = ''GROUP''" and "PrincipalId x = gid"
  shows "sorted members \<and>
    map (\<lambda>l. (csv_column ''USER_ID'' l, csv_column ''USER_NAME'' l))
      (emitted st (snd (process_assignment um gm a an ps pn pd x st))) = members \<and>
    sorted (map (\<lambda>l. (csv_column ''USER_ID'' l, csv_column ''USER_NAME'' l))
      (emitted st (snd (process_assignment um gm a an ps pn pd x st))))"
proof -
  from assms(1,2) obtain ids where "members = sort (map (\<lambda>uid. the (um uid)) ids)"
    by (rule load_directory_group)
  then have s: "sorted members" by simp
  from assms(2,3,4) have
    "map (\<lambda>l. (csv_column ''USER_ID'' l, csv_column ''USER_NAME'' l))
      (emitted st (snd (process_assignment um gm a an ps pn pd x st))) = members"
    by (simp add: process_assignment_group csv_column_line o_def)
  with s show ?thesis by simp
qed

theorem C5_members_sorted_witness:
  "load_directory example_world = Inr (example_user_map, example_group_map) \<and>
   example_group_map ''g1'' =
     Some (''Admins'', '''', [(''alice'', ''Alice A''), (''bob'', ''Bob B''), (''bob'', ''Bob B'')]) \<and>
   PrincipalType \<lparr>PrincipalType = ''GROUP'', PrincipalId = ''g1''\<rparr> = ''GROUP'' \<and>
   PrincipalId \<lparr>PrincipalType = ''GROUP'', PrincipalId = ''g1''\<rparr> = ''g1'' \<and>
   sorted [(''alice'', ''Alice A''), (''bob'', ''Bob B''), (''bob'', ''Bob B'')] \<and>
   map (\<lambda>l. (csv_column ''USER_ID'' l, csv_column ''USER_NAME'' l))
     (emitted initial_state (snd (process_assignment example_user_map example_group_map
        ''111'' ''Prod'' ''ps-1'' ''Admin'' ''full access''
        \<lparr>PrincipalType = ''GROUP'', PrincipalId = ''g1''\<rparr> initial_state))) =
     [(''alice'', ''Alice A''), (''bob'', ''Bob B''), (''bob'', ''Bob B'')]"
  using
    C5_members_sorted [where w = example_world and um = example_user_map
      and gm = example_group_map and gid = "''g1''" and gn = "''Admins''" and gd = "''''"
      and members = "[(''alice'', ''Alice A''), (''bob'', ''Bob B''), (''bob'', ''Bob B'')]"
      and x = "\<lparr>PrincipalType = ''GROUP'', PrincipalId = ''g1''\<rparr>"
      and a = "''111''" and an = "''Prod''" and ps = "''ps-1''" and pn = "''Admin''"
      and pd = "''full access''" and st = initial_state]
    load_example_world
  by (simp add: example_group_map_def)

text \<open>
  C6. When the users and the groups have been listed and the membership listing of a
  group yields a user id that is not a key of the user map, the run ends with
  \<^verbatim>\<open>KeyError\<close>; the report has not been opened, so no line of it has been
  written, and no permission set has been described.
\<close>

theorem C6_unknown_member_aborts:
  assumes "generate_users w = Inr users"
    and "generate_groups w = Inr groups"
    and "g \<in> set groups"
    and "generate_group_memberships w (GroupId g) = Inr ids"
    and "uid \<in> set ids"
    and "build_user_map Map.empty users uid = None"
  shows "main w = \<lparr>outcome = Inl KeyError, sso_report_csv = None, describe_api_calls = []\<rparr>"
proof -
  obtain arn sid where ic: "get_identity_center w = Inr (arn, sid)"
    using assms(1) by (cases "get_identity_center w") (auto simp: generate_users_def)
  from assms(1,2,4) ic have users: "users = concat (list_users w sid)"
    and groups: "groups = concat (list_groups w sid)"
    and ids: "ids = concat (list_group_memberships w sid (GroupId g))"
    by (auto simp: generate_users_def generate_groups_def generate_group_memberships_def)
  have "build_group_map w (build_user_map Map.empty users) Map.empty groups = Inl KeyError"
    using ic assms(3) assms(5) [unfolded ids] assms(6) by (rule build_group_map_missing)
  with assms(1,2) have "load_directory w = Inl KeyError"
    by (simp add: load_directory_def)
  then show ?thesis
    by (simp add: main_def)
qed

theorem C6_unknown_member_aborts_witness:
  "generate_users orphan_world =
     Inr [\<lparr>UserId = ''u1'', UserName = ''alice'', DisplayName = ''Alice A''\<rparr>,
          \<lparr>UserId = ''u2'', UserName = ''bob'', DisplayName = ''Bob B''\<rparr>] \<and>
   generate_groups orphan_world =
     Inr [\<lparr>GroupId = ''g1'', GroupDisplayName = ''Admins'', GroupDescription = None\<rparr>] \<and>
   generate_group_memberships orphan_world ''g1'' = Inr [''u1'', ''u9''] \<and>
   build_user_map Map.empty
     [\<lparr>UserId = ''u1'', UserName = ''alice'', DisplayName = ''Alice A''\<rparr>,
      \<lparr>UserId = ''u2'', UserName = ''bob'', DisplayName = ''Bob B''\<rparr>] ''u9'' = None \<and>
   main orphan_world = \<lparr>outcome = Inl KeyError, sso_report_csv = None, describe_api_calls = []\<rparr>"
  using
    C6_unknown_member_aborts [where w = orphan_world
      and users = "[\<lparr>UserId = ''u1'', UserName = ''alice'', DisplayName = ''Alice A''\<rparr>,
                    \<lparr>UserId = ''u2'', UserName = ''bob'', DisplayName = ''Bob B''\<rparr>]"
      and groups = "[\<lparr>GroupId = ''g1'', GroupDisplayName = ''Admins'', GroupDescription = None\<rparr>]"
      and g = "\<lparr>GroupId = ''g1'', GroupDisplayName = ''Admins'', GroupDescription = None\<rparr>"
      and ids = "[''u1'', ''u9'']" and uid = "''u9''"]
  by (simp add: listing_defs orphan_world_def example_world_def)

text \<open>
  C7. An assignment of principal type USER whose principal id is not a key of the user
  map raises \<^verbatim>\<open>KeyError\<close> and writes no line; the loop over the assignments stops
  there, with the lines of the assignments before it written and none after; and a run
  that has loaded its directory and has such an assignment among those of its accounts
  and permission sets ends with \<^verbatim>\<open>KeyError\<close>.
\<close>

theorem C7_unknown_user_assignment_aborts:
  assumes "PrincipalType x = ''USER''" and "um (PrincipalId x) = None"
  shows "process_assignment um gm a an ps pn pd x st = (Inl KeyError, st) \<and>
    emitted st (snd (process_assignment um gm a an ps pn pd x st)) = [] \<and>
    (process_assignments um gm a an ps pn pd xs st = (Inr (), st') \<longrightarrow>
       process_assignments um gm a an ps pn pd (xs @ x # ys) st = (Inl KeyError, st')) \<and>
    (load_directory w = Inr (um, gm) \<and> account \<in> set (generate_accounts w) \<and>
       generate_permission_sets_for_account w (fst account) = Inr pss \<and> q \<in> set pss \<and>
       generate_account_assignments w (fst account) q = Inr zs \<and> x \<in> set zs \<longrightarrow>
       outcome (main w) = Inl KeyError)"
proof (intro conjI impI)
  show one: "process_assignment um gm a an ps pn pd x st = (Inl KeyError, st)"
    using assms by (rule process_assignment_user_missing)
  then show "emitted st (snd (process_assignment um gm a an ps pn pd x st)) = []"
    by simp
next
  assume "process_assignments um gm a an ps pn pd xs st = (Inr (), st')"
  then show "process_assignments um gm a an ps pn pd (xs @ x # ys) st = (Inl KeyError, st')"
    using assms by (simp add: process_assignments_append process_assignment_user_missing)
next
  assume run: "load_directory w = Inr (um, gm) \<and> account \<in> set (generate_accounts w) \<and>
       generate_permission_sets_for_account w (fst account) = Inr pss \<and> q \<in> set pss \<and>
       generate_account_assignments w (fst account) q = Inr zs \<and> x \<in> set zs"
  then obtain arn sid where ic: "get_identity_center w = Inr (arn, sid)"
    using load_directory_ic by blast
  have bad: "\<not> assignment_ok um gm x"
    using assms by (simp add: assignment_ok_def)
  from run ic have pss: "pss = concat (list_permission_sets_provisioned_to_account w (fst account) arn)"
    and zs: "zs = concat (list_account_assignments w (fst account) arn q)"
    by (simp_all add: generate_permission_sets_ic generate_account_assignments_ic)
  have x: "x \<in> set (concat (list_account_assignments w (fst account) arn q))"
    using run zs by simp
  have q: "q \<in> set (concat (list_permission_sets_provisioned_to_account w (fst account) arn))"
    using run pss by simp
  have acc: "account \<in> set (generate_accounts w)"
    using run by simp
  have "\<not> list_all (assignment_ok um gm) (concat (list_account_assignments w (fst account) arn q))"
    using x bad by (rule not_list_allI)
  with q have "\<not> list_all (\<lambda>ps. list_all (assignment_ok um gm)
                             (concat (list_account_assignments w (fst account) arn ps)))
             (concat (list_permission_sets_provisioned_to_account w (fst account) arn))"
    by (rule not_list_allI)
  with acc have "\<not> list_all (\<lambda>account.
           list_all (\<lambda>ps. list_all (assignment_ok um gm)
                             (concat (list_account_assignments w (fst account) arn ps)))
             (concat (list_permission_sets_provisioned_to_account w (fst account) arn)))
           (generate_accounts w)"
    by (rule not_list_allI)
  then have "fst (process_accounts w um gm (generate_accounts w) initial_state) = Inl KeyError"
    by (simp add: process_accounts_outcome [OF ic])
  with run show "outcome (main w) = Inl KeyError"
    by (simp add: main_loaded)
qed

theorem C7_unknown_user_assignment_aborts_witness:
  "PrincipalType \<lparr>PrincipalType = ''USER'', PrincipalId = ''u9''\<rparr> = ''USER'' \<and>
   example_user_map (PrincipalId \<lparr>PrincipalType = ''USER'', PrincipalId = ''u9''\<rparr>) = None \<and>
   process_assignments example_user_map example_group_map
       ''111'' ''Prod'' ''ps-1'' ''Admin'' ''full access''
       [\<lparr>PrincipalType = ''ROLE'', PrincipalId = ''r1''\<rparr>] initial_state = (Inr (), initial_state) \<and>
   process_assignments example_user_map example_group_map
       ''111'' ''Prod'' ''ps-1'' ''Admin'' ''full access''
       ([\<lparr>PrincipalType = ''ROLE'', PrincipalId = ''r1''\<rparr>] @
        \<lparr>PrincipalType = ''USER'', PrincipalId = ''u9''\<rparr> #
        [\<lparr>PrincipalType = ''USER'', PrincipalId = ''u1''\<rparr>]) initial_state =
     (Inl KeyError, initial_state) \<and>
   load_directory stray_world = Inr (example_user_map, example_group_map) \<and>
   (''111'', ''Prod'') \<in> set (generate_accounts stray_world) \<and>
   generate_permission_sets_for_account stray_world (fst (''111'', ''Prod'')) = Inr [''ps-1''] \<and>
   ''ps-1'' \<in> set [''ps-1''] \<and>
   generate_account_assignments stray_world (fst (''111'', ''Prod'')) ''ps-1'' =
     Inr [\<lparr>PrincipalType = ''GROUP'', PrincipalId = ''g1''\<rparr>,
          \<lparr>PrincipalType = ''USER'', PrincipalId = ''u9''\<rparr>,
          \<lparr>PrincipalType = ''USER'', PrincipalId = ''u1''\<rparr>] \<and>
   outcome (main stray_world) = Inl KeyError"
  using
    C7_unknown_user_assignment_aborts [where x = "\<lparr>PrincipalType = ''USER'', PrincipalId = ''u9''\<rparr>"
      and um = example_user_map and gm = example_group_map
      and a = "''111''" and an = "''Prod''" and ps = "''ps-1''" and pn = "''Admin''"
      and pd = "''full access''" and st = initial_state and st' = initial_state
      and xs = "[\<lparr>PrincipalType = ''ROLE'', PrincipalId = ''r1''\<rparr>]"
      and ys = "[\<lparr>PrincipalType = ''USER'', PrincipalId = ''u1''\<rparr>]"
      and w = stray_world and account = "(''111'', ''Prod'')" and pss = "[''ps-1'']"
      and q = "''ps-1''"
      and zs = "[\<lparr>PrincipalType = ''GROUP'', PrincipalId = ''g1''\<rparr>,
                 \<lparr>PrincipalType = ''USER'', PrincipalId = ''u9''\<rparr>,
                 \<lparr>PrincipalType = ''USER'', PrincipalId = ''u1''\<rparr>]"]
    load_stray_world
  by (simp add: example_user_map_def process_assignment_other listing_defs stray_world_def
      example_world_def)

text \<open>
  C8. The identity centre is the instance arn and the identity store id of the first
  instance of the listing, whatever the listing holds after it; with an empty listing
  the lookup raises \<^verbatim>\<open>IndexError\<close>, and the run ends with that error before the
  report is opened.
\<close>

theorem C8_identity_center:
  "(list_instances w = inst # rest \<longrightarrow>
      get_identity_center w = Inr (InstanceArn inst, IdentityStoreId inst)) \<and>
   (list_instances w = [] \<longrightarrow>
      get_identity_center w = Inl IndexError \<and>
      main w = \<lparr>outcome = Inl IndexError, sso_report_csv = None, describe_api_calls = []\<rparr>)"
  by (simp add: get_identity_center_def main_def load_directory_def generate_users_def)

theorem C8_identity_center_witness:
  "list_instances example_world = \<lparr>IdentityStoreId = ''d-1'', InstanceArn = ''arn:ic''\<rparr> # [] \<and>
   get_identity_center example_world = Inr (''arn:ic'', ''d-1'') \<and>
   list_instances no_instance_world = [] \<and>
   get_identity_center no_instance_world = Inl IndexError \<and>
   main no_instance_world =
     \<lparr>outcome = Inl IndexError, sso_report_csv = None, describe_api_calls = []\<rparr>"
  using
    C8_identity_center [of example_world "\<lparr>IdentityStoreId = ''d-1'', InstanceArn = ''arn:ic''\<rparr>" "[]"]
    C8_identity_center [of no_instance_world]
  by (simp add: example_world_def no_instance_world_def)

text \<open>
  C9. An assignment whose principal type is neither USER nor GROUP raises nothing and
  writes no line, and the loop goes on with the assignments after it.
\<close>

theorem C9_other_principal_skipped:
  "PrincipalType x \<noteq> ''USER'' \<Longrightarrow> PrincipalType x \<noteq> ''GROUP'' \<Longrightarrow>
   process_assignment um gm a an ps pn pd x st = (Inr (), st) \<and>
   emitted st (snd (process_assignment um gm a an ps pn pd x st)) = [] \<and>
   process_assignments um gm a an ps pn pd (x # xs) st =
     process_assignments um gm a an ps pn pd xs st"
  by (simp add: process_assignment_other)

theorem C9_other_principal_skipped_witness:
  "PrincipalType \<lparr>PrincipalType = ''ROLE'', PrincipalId = ''r1''\<rparr> \<noteq> ''USER'' \<and>
   PrincipalType \<lparr>PrincipalType = ''ROLE'', PrincipalId = ''r1''\<rparr> \<noteq> ''GROUP'' \<and>
   process_assignment example_user_map example_group_map
       ''111'' ''Prod'' ''ps-1'' ''Admin'' ''full access''
       \<lparr>PrincipalType = ''ROLE'', PrincipalId = ''r1''\<rparr> initial_state = (Inr (), initial_state) \<and>
   process_assignments example_user_map example_group_map
       ''111'' ''Prod'' ''ps-1'' ''Admin'' ''full access''
       [\<lparr>PrincipalType = ''ROLE'', PrincipalId = ''r1''\<rparr>,
        \<lparr>PrincipalType = ''USER'', PrincipalId = ''u1''\<rparr>] initial_state =
     process_assignments example_user_map example_group_map
       ''111'' ''Prod'' ''ps-1'' ''Admin'' ''full access''
       [\<lparr>PrincipalType = ''USER'', PrincipalId = ''u1''\<rparr>] initial_state"
  using
    C9_other_principal_skipped [where x = "\<lparr>PrincipalType = ''ROLE'', PrincipalId = ''r1''\<rparr>"
      and um = example_user_map and gm = example_group_map
      and a = "''111''" and an = "''Prod''" and ps = "''ps-1''" and pn = "''Admin''"
      and pd = "''full access''" and st = initial_state
      and xs = "[\<lparr>PrincipalType = ''USER'', PrincipalId = ''u1''\<rparr>]"]
  by simp

text \<open>
  C10. Group members are not deduplicated. The member list of a group of the loaded
  group map holds one entry for each user id that the membership listing of the group
  yields (it is the listing with every user id replaced by its pair of user name and
  display name, rearranged). So a user id that the listing yields k times puts at least
  k copies of its pair into the member list, and exactly k when no other user id of the
  listing has the same pair; and an assignment of principal type GROUP to the group
  writes as many lines with that pair as the member list has copies of it.
\<close>

theorem C10_no_deduplication:
  assumes "load_directory w = Inr (um, gm)"
    and "gm gid = Some (gn, gd, members)"
    and "generate_group_memberships w gid = Inr ids"
    and "um uid = Some t"
    and "PrincipalType x = ''GROUP''" and "PrincipalId x = gid"
  shows "mset members = image_mset (\<lambda>i. the (um i)) (mset ids) \<and>
    count_list ids uid \<le> count_list members t \<and>
    (list_all (\<lambda>i. um i \<noteq> Some t \<or> i = uid) ids \<longrightarrow> count_list members t = count_list ids uid) \<and>
    length (filter (\<lambda>l. (csv_column ''USER_ID'' l, csv_column ''USER_NAME'' l) = t)
      (emitted st (snd (process_assignment um gm a an ps pn pd x st)))) = count_list members t"
proof (intro conjI impI)
  from assms(1,2) obtain ids' where "generate_group_memberships w gid = Inr ids'"
    and "members = sort (map (\<lambda>uid. the (um uid)) ids')"
    and "\<forall>uid\<in>set ids'. um uid \<noteq> None"
    by (rule load_directory_group)
  with assms(3) have m: "members = sort (map (\<lambda>uid. the (um uid)) ids)"
    and some: "\<forall>uid\<in>set ids. um uid \<noteq> None" by simp_all
  show "mset members = image_mset (\<lambda>i. the (um i)) (mset ids)"
    by (simp add: m)
  have cnt: "count_list members t = length (filter (\<lambda>i. the (um i) = t) ids)"
    by (simp add: m count_list_sort count_list_map_filter)
  have cnt': "count_list ids uid = length (filter (\<lambda>i. i = uid) ids)"
    by (rule count_list_filter_eq)
  have "length (filter (\<lambda>i. i = uid) ids) \<le> length (filter (\<lambda>i. the (um i) = t) ids)"
  proof -
    have "filter (\<lambda>i. i = uid) ids = filter (\<lambda>i. i = uid) (filter (\<lambda>i. the (um i) = t) ids)"
      using assms(4) by (auto intro: filter_cong)
    then show ?thesis by (metis length_filter_le)
  qed
  then show "count_list ids uid \<le> count_list members t"
    unfolding cnt cnt' .
  {
    assume only: "list_all (\<lambda>i. um i \<noteq> Some t \<or> i = uid) ids"
    have "filter (\<lambda>i. the (um i) = t) ids = filter (\<lambda>i. i = uid) ids"
    proof (rule filter_cong [OF refl])
      fix i assume i: "i \<in> set ids"
      with some obtain v where v: "um i = Some v" by auto
      from only i have "um i \<noteq> Some t \<or> i = uid" by (simp add: list_all_iff)
      with v assms(4) show "(the (um i) = t) = (i = uid)" by auto
    qed
    then show "count_list members t = count_list ids uid"
      unfolding cnt cnt' by simp
  }
  from assms(2,5,6) have
    "emitted st (snd (process_assignment um gm a an ps pn pd x st)) =
       map (\<lambda>m. [a, an, ps, pn, pd, ''GROUP'', gn, gd, fst m, snd m]) members"
    by (simp add: process_assignment_group)
  then show "length (filter (\<lambda>l. (csv_column ''USER_ID'' l, csv_column ''USER_NAME'' l) = t)
      (emitted st (snd (process_assignment um gm a an ps pn pd x st)))) = count_list members t"
    by (simp add: filter_map o_def csv_column_line count_list_filter_eq)
qed

theorem C10_no_deduplication_witness:
  "load_directory example_world = Inr (example_user_map, example_group_map) \<and>
   example_group_map ''g1'' =
     Some (''Admins'', '''', [(''alice'', ''Alice A''), (''bob'', ''Bob B''), (''bob'', ''Bob B'')]) \<and>
   generate_group_memberships example_world ''g1'' = Inr [''u2'', ''u1'', ''u2''] \<and>
   example_user_map ''u2'' = Some (''bob'', ''Bob B'') \<and>
   PrincipalType \<lparr>PrincipalType = ''GROUP'', PrincipalId = ''g1''\<rparr> = ''GROUP'' \<and>
   PrincipalId \<lparr>PrincipalType = ''GROUP'', PrincipalId = ''g1''\<rparr> = ''g1'' \<and>
   list_all (\<lambda>i. example_user_map i \<noteq> Some (''bob'', ''Bob B'') \<or> i = ''u2'') [''u2'', ''u1'', ''u2''] \<and>
   count_list [''u2'', ''u1'', ''u2''] ''u2'' = 2 \<and>
   count_list [(''alice'', ''Alice A''), (''bob'', ''Bob B''), (''bob'', ''Bob B'')] (''bob'', ''Bob B'') = 2 \<and>
   length (filter (\<lambda>l. (csv_column ''USER_ID'' l, csv_column ''USER_NAME'' l) = (''bob'', ''Bob B''))
     (emitted initial_state (snd (process_assignment example_user_map example_group_map
        ''111'' ''Prod'' ''ps-1'' ''Admin'' ''full access''
        \<lparr>PrincipalType = ''GROUP'', PrincipalId = ''g1''\<rparr> initial_state)))) = 2"
  using
    C10_no_deduplication [where w = example_world and um = example_user_map
      and gm = example_group_map and gid = "''g1''" and gn = "''Admins''" and gd = "''''"
      and members = "[(''alice'', ''Alice A''), (''bob'', ''Bob B''), (''bob'', ''Bob B'')]"
      and ids = "[''u2'', ''u1'', ''u2'']" and uid = "''u2''" and t = "(''bob'', ''Bob B'')"
      and x = "\<lparr>PrincipalType = ''GROUP'', PrincipalId = ''g1''\<rparr>"
      and a = "''111''" and an = "''Prod''" and ps = "''ps-1''" and pn = "''Admin''"
      and pd = "''full access''" and st = initial_state]
    load_example_world
  by (simp add: example_user_map_def example_group_map_def listing_defs example_world_def)

end
